theory Spec2Isabelle
  imports
    Complex_Main
    "HOL-Library.Char_ord"
    "HOL-Library.List_Lexorder"
    "HOL-Library.Product_Lexorder"
    "HOL-Library.Multiset"
begin

section \<open>The relational store\<close>

text \<open>
  Modelled from the spec: the schema script \<^verbatim>\<open>resources/schema.sql\<close> is not among the
  sources. The four tables and their columns are those of the data model of the
  specification (Stage, Connection, ToolCategory, Tool), which are also the ones the
  queries of \<^verbatim>\<open>streamlit_app.py\<close> name. A table is the list of its rows in rowid
  order. Integers are \<open>int\<close>; the ids that SQLite stores lie in the signed 64-bit
  range. Text is \<open>string\<close>, a list of the code points of the text, which covers the
  code points below 256; the order on it is the order of the UTF-8 encodings that the
  default BINARY collation compares.
\<close>

record stage =
  s_id :: int
  s_name :: string
  s_description :: string
  s_order_index :: int

record connection =
  from_stage_id :: int
  to_stage_id :: int
  connection_type :: string

record tool_category =
  c_id :: int
  c_stage_id :: int
  c_name :: string
  c_description :: string

record tool =
  t_id :: int
  t_category_id :: int
  t_name :: string
  t_description :: string

record database =
  stages :: "stage list"
  connections :: "connection list"
  tool_categories :: "tool_category list"
  tools :: "tool list"

section \<open>Exceptions\<close>

text \<open>
  The exceptions that leave the modelled functions: \<^verbatim>\<open>AttributeError\<close> is what
  \<^verbatim>\<open>.strip()\<close> raises on a value that is not a string; \<open>CsvReadError\<close> stands for
  any exception of \<^verbatim>\<open>pd.read_csv\<close> (missing file, parse error); \<^verbatim>\<open>IndexError\<close> is
  raised by a list index out of range; \<^verbatim>\<open>OverflowError\<close> by the \<^verbatim>\<open>sqlite3\<close> module
  when an integer parameter does not fit an SQLite integer; \<^verbatim>\<open>DataError\<close> when a text
  parameter is too long to be bound; \<^verbatim>\<open>OperationalError\<close> when SQLite rejects a
  statement while running it.
\<close>

datatype py_error =
  AttributeError | CsvReadError | IndexError | OverflowError | OperationalError | DataError

section \<open>Read queries\<close>

text \<open>
  Python truthiness of an optional integer argument: \<^verbatim>\<open>None\<close> and \<^verbatim>\<open>0\<close> are falsy.
\<close>

fun truthy :: "int option \<Rightarrow> bool" where
  "truthy None = False"
| "truthy (Some i) = (i \<noteq> 0)"

text \<open>\<^verbatim>\<open>SELECT * FROM stages ORDER BY order_index\<close>\<close>

definition load_stages :: "database \<Rightarrow> stage list" where
  "load_stages db = sort_key s_order_index (stages db)"

text \<open>\<^verbatim>\<open>SELECT * FROM connections\<close>\<close>

definition load_connections :: "database \<Rightarrow> connection list" where
  "load_connections db = connections db"

text \<open>
  \<^verbatim>\<open>if stage_id:\<close> selects
  \<^verbatim>\<open>SELECT * FROM tool_categories WHERE stage_id = ? ORDER BY name\<close>, otherwise
  \<^verbatim>\<open>SELECT * FROM tool_categories ORDER BY stage_id, name\<close>.
\<close>

fun load_tool_categories :: "database \<Rightarrow> int option \<Rightarrow> tool_category list" where
  "load_tool_categories db (Some stage_id) =
     (if truthy (Some stage_id)
      then sort_key c_name (filter (\<lambda>c. c_stage_id c = stage_id) (tool_categories db))
      else sort_key (\<lambda>c. (c_stage_id c, c_name c)) (tool_categories db))"
| "load_tool_categories db None =
     sort_key (\<lambda>c. (c_stage_id c, c_name c)) (tool_categories db)"

text \<open>
  \<^verbatim>\<open>if category_id:\<close> selects
  \<^verbatim>\<open>SELECT * FROM tools WHERE category_id = ? ORDER BY name\<close>, otherwise
  \<^verbatim>\<open>SELECT * FROM tools ORDER BY category_id, name\<close>.
\<close>

fun load_tools :: "database \<Rightarrow> int option \<Rightarrow> tool list" where
  "load_tools db (Some category_id) =
     (if truthy (Some category_id)
      then sort_key t_name (filter (\<lambda>t. t_category_id t = category_id) (tools db))
      else sort_key (\<lambda>t. (t_category_id t, t_name t)) (tools db))"
| "load_tools db None =
     sort_key (\<lambda>t. (t_category_id t, t_name t)) (tools db)"

text \<open>
  The two loaders above give the rows that the statement selects once it runs. A
  truthy id is bound to the \<^verbatim>\<open>?\<close> of the statement first, and the \<^verbatim>\<open>sqlite3\<close>
  module raises \<^verbatim>\<open>OverflowError\<close> for a Python integer outside the signed 64-bit
  range. \<open>call_load_tool_categories\<close> and \<open>call_load_tools\<close> are the calls
  \<^verbatim>\<open>load_tool_categories(stage_id)\<close> and \<^verbatim>\<open>load_tools(category_id)\<close> with that
  exception.
\<close>

definition sqlite_int64 :: "int \<Rightarrow> bool" where
  "sqlite_int64 i = (- (2 ^ 63) \<le> i \<and> i < 2 ^ 63)"

fun call_load_tool_categories ::
  "database \<Rightarrow> int option \<Rightarrow> py_error + tool_category list" where
  "call_load_tool_categories db (Some stage_id) =
     (if truthy (Some stage_id)
      then (if sqlite_int64 stage_id then Inr (load_tool_categories db (Some stage_id))
            else Inl OverflowError)
      else Inr (load_tool_categories db (Some stage_id)))"
| "call_load_tool_categories db None = Inr (load_tool_categories db None)"

fun call_load_tools :: "database \<Rightarrow> int option \<Rightarrow> py_error + tool list" where
  "call_load_tools db (Some category_id) =
     (if truthy (Some category_id)
      then (if sqlite_int64 category_id then Inr (load_tools db (Some category_id))
            else Inl OverflowError)
      else Inr (load_tools db (Some category_id)))"
| "call_load_tools db None = Inr (load_tools db None)"

section \<open>Search\<close>

text \<open>
  The \<^verbatim>\<open>LIKE\<close> operator of SQLite compares letters of the ASCII range without regard
  to case.
\<close>

definition to_lower :: "char \<Rightarrow> char" where
  "to_lower c =
     (case map_of (zip ''ABCDEFGHIJKLMNOPQRSTUVWXYZ'' ''abcdefghijklmnopqrstuvwxyz'') c of
        None \<Rightarrow> c
      | Some l \<Rightarrow> l)"

text \<open>
  The comparison loop of \<^verbatim>\<open>LIKE\<close> (no ESCAPE clause) on a pattern and a text: a
  percent sign in the pattern matches any run of characters, also the empty one, an
  underscore matches any one character, every other character matches itself up to
  case.
\<close>

fun pattern_compare :: "string \<Rightarrow> string \<Rightarrow> bool" where
  "pattern_compare [] s = (s = [])"
| "pattern_compare (p # ps) [] = (p = CHR ''%'' \<and> pattern_compare ps [])"
| "pattern_compare (p # ps) (c # cs) =
     (if p = CHR ''%'' then pattern_compare ps (c # cs) \<or> pattern_compare (p # ps) cs
      else (p = CHR ''_'' \<or> to_lower p = to_lower c) \<and> pattern_compare ps cs)"












section \<open>CSV import\<close>

text \<open>
  A cell of the data frame that \<^verbatim>\<open>pd.read_csv\<close> returns: a string, a number (a column
  of numerals is parsed as numbers), or the float \<^verbatim>\<open>NaN\<close> that pandas puts where the
  field of the file is empty. A row maps the column names of the file to cells.
\<close>

datatype cell = Str string | Num int | NaN

type_synonym csv_row = "string \<rightharpoonup> cell"

text \<open>\<^verbatim>\<open>row.get(key, '')\<close>: the default is used only when the column does not exist.\<close>

definition row_get :: "csv_row \<Rightarrow> string \<Rightarrow> cell" where
  "row_get row key = (case row key of None \<Rightarrow> Str [] | Some v \<Rightarrow> v)"

text \<open>
  \<^verbatim>\<open>str.strip()\<close> removes leading and trailing whitespace; the whitespace characters
  below 256 are the blank, \<^verbatim>\<open>\t \n \v \f \r\<close>, the separators \<^verbatim>\<open>0x1c\<close> to
  \<^verbatim>\<open>0x1f\<close>, the next-line character \<^verbatim>\<open>0x85\<close> and the no-break space \<^verbatim>\<open>0xa0\<close>.
\<close>

definition is_space :: "char \<Rightarrow> bool" where
  "is_space c = (c \<in> set [CHR '' '', CHR 0x09, CHR 0x0A, CHR 0x0B, CHR 0x0C, CHR 0x0D,
                            CHR 0x1C, CHR 0x1D, CHR 0x1E, CHR 0x1F, CHR 0x85, CHR 0xA0])"

definition strip :: "string \<Rightarrow> string" where
  "strip s = rev (dropWhile is_space (rev (dropWhile is_space s)))"

fun cell_strip :: "cell \<Rightarrow> py_error + string" where
  "cell_strip (Str s) = Inr (strip s)"
| "cell_strip (Num n) = Inl AttributeError"
| "cell_strip NaN = Inl AttributeError"

text \<open>\<^verbatim>\<open>tools.split(',')\<close>: the pieces between commas, at least one piece.\<close>

fun split_comma :: "string \<Rightarrow> string list" where
  "split_comma [] = [[]]"
| "split_comma (c # cs) =
     (if c = CHR '','' then [] # split_comma cs
      else (case split_comma cs of [] \<Rightarrow> [[c]] | w # ws \<Rightarrow> (c # w) # ws))"

text \<open>
  A connection of the \<^verbatim>\<open>sqlite3\<close> module in its default transaction mode: \<open>disk\<close>
  is the committed content of the file, \<open>txn\<close> is what the statements of the
  connection see and change (an INSERT opens a transaction implicitly), and
  \<open>last_insert_rowid\<close> is the rowid of the last row inserted through the connection,
  0 on a new connection.
\<close>

record sqlite_conn =
  disk :: database
  txn :: database
  last_insert_rowid :: int

definition sqlite3_connect :: "database \<Rightarrow> sqlite_conn" where
  "sqlite3_connect db = \<lparr>disk = db, txn = db, last_insert_rowid = 0\<rparr>"

definition commit :: "sqlite_conn \<Rightarrow> sqlite_conn" where
  "commit conn = conn\<lparr>disk := txn conn\<rparr>"

definition rollback :: "sqlite_conn \<Rightarrow> sqlite_conn" where
  "rollback conn = conn\<lparr>txn := disk conn\<rparr>"

text \<open>
  The id that SQLite gives a row inserted without one: 1 in an empty table, otherwise
  one more than the largest id of the table. This is the rule while the largest id is
  below \<open>2 ^ 63 - 1\<close>; at that bound SQLite tries unused ids at random, which is not
  modelled.
\<close>

fun next_rowid :: "int list \<Rightarrow> int" where
  "next_rowid [] = 1"
| "next_rowid (i # ids) = fold max ids i + 1"

text \<open>
  \<^verbatim>\<open>INSERT INTO tool_categories (stage_id, name, description) VALUES (?, ?, ?)\<close>
\<close>

definition insert_category :: "sqlite_conn \<Rightarrow> int \<Rightarrow> string \<Rightarrow> string \<Rightarrow> sqlite_conn" where
  "insert_category conn stage_id name description =
     (let new_id = next_rowid (map c_id (tool_categories (txn conn)));
          r = \<lparr>c_id = new_id, c_stage_id = stage_id, c_name = name,
               c_description = description\<rparr>
      in conn\<lparr>txn := (txn conn)\<lparr>tool_categories := tool_categories (txn conn) @ [r]\<rparr>,
              last_insert_rowid := new_id\<rparr>)"

text \<open>\<^verbatim>\<open>INSERT INTO tools (category_id, name, description) VALUES (?, ?, ?)\<close>\<close>

definition insert_tool :: "sqlite_conn \<Rightarrow> int \<Rightarrow> string \<Rightarrow> string \<Rightarrow> sqlite_conn" where
  "insert_tool conn category_id name description =
     (let new_id = next_rowid (map t_id (tools (txn conn)));
          r = \<lparr>t_id = new_id, t_category_id = category_id, t_name = name,
               t_description = description\<rparr>
      in conn\<lparr>txn := (txn conn)\<lparr>tools := tools (txn conn) @ [r]\<rparr>,
              last_insert_rowid := new_id\<rparr>)"

text \<open>
  \<^verbatim>\<open>SELECT id FROM stages WHERE name = ?\<close> followed by \<^verbatim>\<open>fetchone()\<close>: the id of the
  first stage of that name, \<^verbatim>\<open>None\<close> when there is none.
\<close>

definition select_stage_id :: "database \<Rightarrow> string \<Rightarrow> int option" where
  "select_stage_id db stage_name =
     (case filter (\<lambda>s. s_name s = stage_name) (stages db) of
        [] \<Rightarrow> None
      | s # _ \<Rightarrow> Some (s_id s))"

text \<open>
  The inner loop (lines 100 to 106): one tool per piece of \<^verbatim>\<open>EXAMPLES\<close> that is not
  blank.
\<close>

definition insert_tools ::
  "sqlite_conn \<Rightarrow> int \<Rightarrow> string \<Rightarrow> string list \<Rightarrow> sqlite_conn" where
  "insert_tools conn category_id category_name pieces =
     fold (\<lambda>piece c.
             (let tool_name = strip piece
              in if tool_name \<noteq> []
                 then insert_tool c category_id tool_name
                        (''Example tool for '' @ category_name)
                 else c))
          pieces conn"

text \<open>
  The body of the loop over the rows (lines 77 to 106). The four \<^verbatim>\<open>.strip()\<close> calls
  come first, each raising on a cell that is not a string. \<open>cursor\<close> is the cursor of
  the SELECT: the \<^verbatim>\<open>sqlite3\<close> module sets its \<^verbatim>\<open>lastrowid\<close> when that statement
  is executed, to the connection's last insert rowid of that moment. The INSERT of line
  93 runs through \<^verbatim>\<open>conn.execute\<close>, on a cursor of its own, so line 97 reads the
  value the SELECT left.
\<close>

definition import_row :: "sqlite_conn \<Rightarrow> csv_row \<Rightarrow> py_error + sqlite_conn" where
  "import_row conn row =
     (case cell_strip (row_get row ''RESEARCH DATA LIFECYCLE STAGE'') of
        Inl e \<Rightarrow> Inl e
      | Inr stage_name \<Rightarrow>
     (case cell_strip (row_get row ''TOOL CATEGORY TYPE'') of
        Inl e \<Rightarrow> Inl e
      | Inr category_name \<Rightarrow>
     (case cell_strip (row_get row ''DESCRIPTION (1 SENTENCE)'') of
        Inl e \<Rightarrow> Inl e
      | Inr description \<Rightarrow>
     (case cell_strip (row_get row ''EXAMPLES'') of
        Inl e \<Rightarrow> Inl e
      | Inr tools_text \<Rightarrow>
          if stage_name = [] \<or> category_name = [] then Inr conn
          else
            (case select_stage_id (txn conn) stage_name of
               None \<Rightarrow> Inr conn
             | Some stage_id \<Rightarrow>
                 (let cursor_lastrowid = last_insert_rowid conn;
                      conn1 = insert_category conn stage_id category_name description;
                      category_id = cursor_lastrowid
                  in Inr (insert_tools conn1 category_id category_name
                            (split_comma tools_text))))))))"

text \<open>
  The loop over the rows: it stops at the first exception, with the connection as the
  rows before have left it.
\<close>

fun import_rows :: "sqlite_conn \<Rightarrow> csv_row list \<Rightarrow> sqlite_conn \<times> py_error option" where
  "import_rows conn [] = (conn, None)"
| "import_rows conn (row # rows) =
     (case import_row conn row of
        Inl e \<Rightarrow> (conn, Some e)
      | Inr conn' \<Rightarrow> import_rows conn' rows)"

text \<open>
  \<^verbatim>\<open>import_tool_data\<close>. The argument \<open>csv\<close> is what \<^verbatim>\<open>pd.read_csv(csv_path)\<close>
  gives: an exception or the rows of the data frame. The connection is the context
  manager of the \<^verbatim>\<open>with\<close> statement: leaving the body normally commits, leaving it
  by an exception rolls the open transaction back before the exception reaches the
  handler of line 107. The result is the content of the database file afterwards and
  the exception that \<^verbatim>\<open>st.error\<close> reports, if any. The SQL statements themselves
  are taken to succeed (the tables exist, no constraint rejects a row).
\<close>

definition import_tool_data ::
  "database \<Rightarrow> py_error + csv_row list \<Rightarrow> database \<times> py_error option" where
  "import_tool_data db csv =
     (case csv of
        Inl e \<Rightarrow> (db, Some e)
      | Inr df \<Rightarrow>
          (case import_rows (sqlite3_connect db) df of
             (conn, Some e) \<Rightarrow> (disk (rollback conn), Some e)
           | (conn, None) \<Rightarrow> (disk (commit conn), None)))"

section \<open>Lifecycle visualization\<close>

text \<open>
  Python indexing of a list: an index from \<open>0\<close> to \<open>n - 1\<close> reads from the front, an
  index from \<open>- n\<close> to \<open>- 1\<close> reads from the end, any other raises
  \<^verbatim>\<open>IndexError\<close>.
\<close>

definition py_index :: "'a list \<Rightarrow> int \<Rightarrow> py_error + 'a" where
  "py_index xs i =
     (let n = int (length xs)
      in if 0 \<le> i \<and> i < n then Inr (xs ! nat i)
         else if - n \<le> i \<and> i < 0 then Inr (xs ! nat (n + i))
         else Inl IndexError)"

text \<open>
  The traces of the figure. A connection is a \<^verbatim>\<open>go.Scatter\<close> in mode \<^verbatim>\<open>lines\<close>
  with its two x and two y coordinates and its line style (a dictionary with
  \<^verbatim>\<open>color\<close>, \<^verbatim>\<open>width\<close> and, for a dashed line, \<^verbatim>\<open>dash\<close>); a stage is a
  \<^verbatim>\<open>go.Scatter\<close> in mode \<^verbatim>\<open>markers+text\<close> with one coordinate pair, marker size and
  colour, name, id and description. The numbers are Python floats; the only arithmetic
  on them is multiplication by 1 and -1, which is exact, so they are modelled as reals.
\<close>

record line_style =
  ls_color :: string
  ls_width :: nat
  ls_dash :: "string option"

record marker =
  m_size :: nat
  m_color :: string

datatype trace =
    Connection_line (trace_x: "real list") (trace_y: "real list") line_style
  | Stage_node (trace_x: "real list") (trace_y: "real list") marker string int string

text \<open>Line 180: one angle for each stage.\<close>

definition stage_angles :: "nat \<Rightarrow> real list" where
  "stage_angles n_stages = map (\<lambda>i. real i * 2 * 3.14159 / real n_stages) [0..<n_stages]"

text \<open>
  Lines 186 and 187, in the scope where \<^verbatim>\<open>angles\<close>, \<^verbatim>\<open>radius\<close> and \<^verbatim>\<open>n_stages\<close>
  are bound: \<^verbatim>\<open>x_positions\<close> and \<^verbatim>\<open>y_positions\<close>.
\<close>

definition stage_positions :: "real list \<Rightarrow> real \<Rightarrow> nat \<Rightarrow> real list \<times> real list" where
  "stage_positions angles radius n_stages =
     (map (\<lambda>i. radius * 0.8 * (- 1) * (- 1) ^ (i mod 2)) [0..<n_stages],
      map (\<lambda>i. radius * (- 1) ^ (i mod 2)) [0..<n_stages])"

text \<open>
  The loop over the connections (lines 193 to 211); \<open>fig\<close> is the list of traces added
  so far. The guard compares both indices with \<^verbatim>\<open>n_stages\<close> only.
\<close>

fun add_connections ::
  "real list \<Rightarrow> real list \<Rightarrow> nat \<Rightarrow> connection list \<Rightarrow> trace list \<Rightarrow> py_error + trace list"
  where
  "add_connections x_positions y_positions n_stages [] fig = Inr fig"
| "add_connections x_positions y_positions n_stages (conn # conns) fig =
     (let from_id = from_stage_id conn - 1;
          to_id = to_stage_id conn - 1
      in if from_id < int n_stages \<and> to_id < int n_stages
         then
           (let line_style = \<lparr>ls_color = ''rgba(120, 120, 120, 0.6)'', ls_width = 1,
                              ls_dash = None\<rparr>;
                line_style = (if connection_type conn = ''alternative''
                              then line_style\<lparr>ls_dash := Some ''dash''\<rparr>
                              else line_style)
            in (case py_index x_positions from_id of Inl e \<Rightarrow> Inl e | Inr x0 \<Rightarrow>
               (case py_index x_positions to_id of Inl e \<Rightarrow> Inl e | Inr x1 \<Rightarrow>
               (case py_index y_positions from_id of Inl e \<Rightarrow> Inl e | Inr y0 \<Rightarrow>
               (case py_index y_positions to_id of Inl e \<Rightarrow> Inl e | Inr y1 \<Rightarrow>
                  add_connections x_positions y_positions n_stages conns
                    (fig @ [Connection_line [x0, x1] [y0, y1] line_style]))))))
         else add_connections x_positions y_positions n_stages conns fig)"

text \<open>
  The loop over the stages (lines 214 to 235): the selected stage is drawn larger and
  darker. The index \<open>i\<close> of \<^verbatim>\<open>enumerate\<close> is below the length of both position lists.
\<close>

definition stage_node ::
  "real list \<Rightarrow> real list \<Rightarrow> int option \<Rightarrow> nat \<Rightarrow> stage \<Rightarrow> trace" where
  "stage_node x_positions y_positions selected_stage i stage =
     (let m = (if truthy selected_stage \<and> Some (s_id stage) = selected_stage
               then \<lparr>m_size = 30, m_color = ''rgba(90, 159, 23, 1)''\<rparr>
               else \<lparr>m_size = 25, m_color = ''rgba(122, 193, 66, 0.8)''\<rparr>)
      in Stage_node [x_positions ! i] [y_positions ! i] m (s_name stage) (s_id stage)
           (s_description stage))"

definition add_stage_nodes ::
  "real list \<Rightarrow> real list \<Rightarrow> int option \<Rightarrow> stage list \<Rightarrow> trace list" where
  "add_stage_nodes x_positions y_positions selected_stage stage_list =
     map (\<lambda>(i, stage). stage_node x_positions y_positions selected_stage i stage)
       (enumerate 0 stage_list)"

text \<open>
  \<^verbatim>\<open>create_lifecycle_visualization\<close>: the traces of the figure in the order they are
  added, or the exception that leaves the function. The layout of the figure is a
  constant and is left out. The parameters \<^verbatim>\<open>stages\<close> and \<^verbatim>\<open>connections\<close> are
  \<open>stage_list\<close> and \<open>connection_list\<close> here.
\<close>

definition create_lifecycle_visualization ::
  "stage list \<Rightarrow> connection list \<Rightarrow> int option \<Rightarrow> py_error + trace list" where
  "create_lifecycle_visualization stage_list connection_list selected_stage =
     (let n_stages = length stage_list;
          angles = stage_angles n_stages;
          radius = 1;
          (x_positions, y_positions) = stage_positions angles radius n_stages
      in case add_connections x_positions y_positions n_stages connection_list [] of
           Inl e \<Rightarrow> Inl e
         | Inr fig \<Rightarrow>
             Inr (fig @ add_stage_nodes x_positions y_positions selected_stage stage_list))"

section \<open>Example data\<close>

definition ex_stage0 :: stage where
  "ex_stage0 = \<lparr>s_id = 0, s_name = ''Plan'', s_description = ''Planning'', s_order_index = 1\<rparr>"

definition ex_stage1 :: stage where
  "ex_stage1 = \<lparr>s_id = 1, s_name = ''Fund'', s_description = ''Funding'', s_order_index = 2\<rparr>"

definition ex_cat0 :: tool_category where
  "ex_cat0 = \<lparr>c_id = 0, c_stage_id = 0, c_name = ''DMP'', c_description = ''Plans''\<rparr>"

definition ex_cat1 :: tool_category where
  "ex_cat1 = \<lparr>c_id = 1, c_stage_id = 1, c_name = ''Grants'', c_description = ''Money''\<rparr>"

definition ex_tool0 :: tool where
  "ex_tool0 = \<lparr>t_id = 1, t_category_id = 0, t_name = ''Argos'', t_description = ''d''\<rparr>"

definition ex_tool1 :: tool where
  "ex_tool1 = \<lparr>t_id = 2, t_category_id = 1, t_name = ''Pivot'', t_description = ''d''\<rparr>"

definition ex_cat2 :: tool_category where
  "ex_cat2 = \<lparr>c_id = 2, c_stage_id = 1, c_name = ''Budgets'', c_description = ''Costing''\<rparr>"

definition ex_tool2 :: tool where
  "ex_tool2 = \<lparr>t_id = 3, t_category_id = 1, t_name = ''Dimensions'', t_description = ''d''\<rparr>"

definition ex_db :: database where
  "ex_db = \<lparr>stages = [ex_stage0, ex_stage1], connections = [],
            tool_categories = [ex_cat0, ex_cat1, ex_cat2],
            tools = [ex_tool0, ex_tool1, ex_tool2]\<rparr>"

text \<open>A store in which no category belongs to stage 0 and no tool to category 0.\<close>

definition ex_db1 :: database where
  "ex_db1 = \<lparr>stages = [ex_stage1], connections = [],
             tool_categories = [ex_cat1], tools = [ex_tool1]\<rparr>"

text \<open>A store with the stage \<^verbatim>\<open>Collect\<close> and no categories or tools yet.\<close>

definition ex_db_collect :: database where
  "ex_db_collect =
     \<lparr>stages = [\<lparr>s_id = 4, s_name = ''Collect'', s_description = ''Gathering data'',
                  s_order_index = 4\<rparr>],
      connections = [], tool_categories = [], tools = []\<rparr>"

text \<open>
  The row of the spec's example:
  \<^verbatim>\<open>stage="Collect", category="Acquisition", examples="ToolA, ToolB"\<close>.
\<close>

definition ex_row_collect :: csv_row where
  "ex_row_collect = map_of
     [(''RESEARCH DATA LIFECYCLE STAGE'', Str ''Collect''),
      (''TOOL CATEGORY TYPE'', Str ''Acquisition''),
      (''DESCRIPTION (1 SENTENCE)'', Str ''Gets data''),
      (''EXAMPLES'', Str ''ToolA, ToolB'')]"

text \<open>A row whose stage field is empty in the file.\<close>

definition ex_row_no_stage :: csv_row where
  "ex_row_no_stage = map_of
     [(''RESEARCH DATA LIFECYCLE STAGE'', NaN),
      (''TOOL CATEGORY TYPE'', Str ''Acquisition''),
      (''DESCRIPTION (1 SENTENCE)'', Str ''Gets data''),
      (''EXAMPLES'', Str ''ToolA'')]"

text \<open>The two stages of the spec's example scenario.\<close>

definition ex_stages :: "stage list" where
  "ex_stages =
     [\<lparr>s_id = 1, s_name = ''Conceptualise'', s_description = ''Ideas'', s_order_index = 1\<rparr>,
      \<lparr>s_id = 2, s_name = ''Plan'', s_description = ''Planning'', s_order_index = 2\<rparr>]"

section \<open>Properties of the read queries\<close>

lemma sort_key_filter_unmatched:
  "i \<notin> f ` set xs \<Longrightarrow> sort_key g (filter (\<lambda>x. f x = i) xs) = []"
proof -
  assume "i \<notin> f ` set xs"
  then have "filter (\<lambda>x. f x = i) xs = []"
    by (auto simp: filter_empty_conv)
  then show ?thesis by simp
qed

lemmas ex_data_defs =
  ex_db_def ex_db1_def ex_stage0_def ex_stage1_def ex_cat0_def ex_cat1_def ex_cat2_def
  ex_tool0_def ex_tool1_def ex_tool2_def

text \<open>
  C6, as stated for every stage, fails at a stage whose id is 0: the guard
  \<^verbatim>\<open>if stage_id:\<close> is false there, and the categories of every stage come back.
\<close>

theorem load_tool_categories_stage_zero_counterexample:
  "load_tool_categories ex_db (Some (s_id ex_stage0)) = [ex_cat0, ex_cat2, ex_cat1] \<and>
   c_stage_id ex_cat1 \<noteq> s_id ex_stage0"
  by (simp add: ex_data_defs)

text \<open>
  C6 (amended): for every stage whose id is not 0, \<^verbatim>\<open>load_tool_categories(S.id)\<close>
  returns only categories whose \<^verbatim>\<open>stage_id\<close> is that id, ordered by category name.
\<close>

theorem load_tool_categories_filtered_sorted:
  "sid \<noteq> 0 \<Longrightarrow>
     (\<forall>c \<in> set (load_tool_categories db (Some sid)). c_stage_id c = sid) \<and>
     sorted (map c_name (load_tool_categories db (Some sid)))"
  by simp

theorem load_tool_categories_filtered_sorted_witness:
  "s_id ex_stage1 \<noteq> 0 \<and>
   load_tool_categories ex_db (Some (s_id ex_stage1)) = [ex_cat2, ex_cat1] \<and>
   c_stage_id ex_cat2 = s_id ex_stage1 \<and> c_stage_id ex_cat1 = s_id ex_stage1 \<and>
   sorted (map c_name (load_tool_categories ex_db (Some (s_id ex_stage1))))"
  using load_tool_categories_filtered_sorted [of "s_id ex_stage1" ex_db]
  by (simp add: ex_data_defs)

text \<open>
  C7, as stated for every category, fails at a category whose id is 0: the guard
  \<^verbatim>\<open>if category_id:\<close> is false there, and the tools of every category come back.
\<close>

theorem load_tools_category_zero_counterexample:
  "load_tools ex_db (Some (c_id ex_cat0)) = [ex_tool0, ex_tool2, ex_tool1] \<and>
   t_category_id ex_tool1 \<noteq> c_id ex_cat0"
  by (simp add: ex_data_defs)

text \<open>
  C7 (amended): for every category whose id is not 0, \<^verbatim>\<open>load_tools(C.id)\<close> returns
  only tools whose \<^verbatim>\<open>category_id\<close> is that id, ordered by tool name.
\<close>

theorem load_tools_filtered_sorted:
  "cid \<noteq> 0 \<Longrightarrow>
     (\<forall>t \<in> set (load_tools db (Some cid)). t_category_id t = cid) \<and>
     sorted (map t_name (load_tools db (Some cid)))"
  by simp

theorem load_tools_filtered_sorted_witness:
  "c_id ex_cat1 \<noteq> 0 \<and>
   load_tools ex_db (Some (c_id ex_cat1)) = [ex_tool2, ex_tool1] \<and>
   t_category_id ex_tool2 = c_id ex_cat1 \<and> t_category_id ex_tool1 = c_id ex_cat1 \<and>
   sorted (map t_name (load_tools ex_db (Some (c_id ex_cat1))))"
  using load_tools_filtered_sorted [of "c_id ex_cat1" ex_db]
  by (simp add: ex_data_defs)

text \<open>
  C8, as stated for every id that matches no row, fails at the id 0 (and at
  \<^verbatim>\<open>None\<close>): no row of \<open>ex_db1\<close> is owned by 0, and both loaders return rows. It
  fails at \<open>2 ^ 63\<close> as well, which matches no row and raises \<^verbatim>\<open>OverflowError\<close>.
\<close>

theorem unmatched_zero_id_counterexample:
  "map c_stage_id (tool_categories ex_db1) = [1] \<and>
   load_tool_categories ex_db1 (Some 0) = [ex_cat1] \<and>
   call_load_tool_categories ex_db1 (Some 0) = Inr [ex_cat1] \<and>
   map t_category_id (tools ex_db1) = [1] \<and>
   load_tools ex_db1 (Some 0) = [ex_tool1] \<and>
   call_load_tools ex_db1 (Some 0) = Inr [ex_tool1] \<and>
   call_load_tool_categories ex_db1 (Some (2 ^ 63)) = Inl OverflowError \<and>
   call_load_tools ex_db1 (Some (2 ^ 63)) = Inl OverflowError"
  by (simp add: ex_data_defs sqlite_int64_def)

text \<open>
  C8 (amended): for every id other than 0 in the signed 64-bit range that no row of
  \<^verbatim>\<open>tool_categories\<close> has as its \<^verbatim>\<open>stage_id\<close> (respectively no row of \<^verbatim>\<open>tools\<close> as
  its \<^verbatim>\<open>category_id\<close>), the call returns the empty list and raises nothing. For an id
  outside that range the call raises \<^verbatim>\<open>OverflowError\<close>.
\<close>

theorem unmatched_nonzero_id_gives_empty:
  "i \<noteq> 0 \<Longrightarrow>
     (sqlite_int64 i \<longrightarrow>
        (i \<notin> c_stage_id ` set (tool_categories db) \<longrightarrow>
           call_load_tool_categories db (Some i) = Inr []) \<and>
        (i \<notin> t_category_id ` set (tools db) \<longrightarrow> call_load_tools db (Some i) = Inr [])) \<and>
     (\<not> sqlite_int64 i \<longrightarrow>
        call_load_tool_categories db (Some i) = Inl OverflowError \<and>
        call_load_tools db (Some i) = Inl OverflowError)"
  by (simp add: sort_key_filter_unmatched)

theorem unmatched_nonzero_id_gives_empty_witness:
  "(7::int) \<noteq> 0 \<and> sqlite_int64 7 \<and> 7 \<notin> c_stage_id ` set (tool_categories ex_db) \<and>
   call_load_tool_categories ex_db (Some 7) = Inr [] \<and>
   7 \<notin> t_category_id ` set (tools ex_db) \<and> call_load_tools ex_db (Some 7) = Inr [] \<and>
   \<not> sqlite_int64 (- (2 ^ 63) - 1) \<and>
   call_load_tools ex_db (Some (- (2 ^ 63) - 1)) = Inl OverflowError"
  using unmatched_nonzero_id_gives_empty [of 7 ex_db]
    unmatched_nonzero_id_gives_empty [of "- (2 ^ 63) - 1" ex_db]
  by (simp add: ex_data_defs sqlite_int64_def)

text \<open>
  C10: a falsy filter (\<^verbatim>\<open>None\<close> or \<^verbatim>\<open>0\<close>) leaves the filter out: both loaders
  then return every row of their table, each exactly once.
\<close>

theorem falsy_filter_returns_whole_table:
  "\<not> truthy i \<Longrightarrow>
     mset (load_tool_categories db i) = mset (tool_categories db) \<and>
     mset (load_tools db i) = mset (tools db)"
  by (cases i) simp_all

theorem falsy_filter_returns_whole_table_witness:
  "\<not> truthy (Some 0) \<and>
   mset (load_tool_categories ex_db (Some 0)) = mset (tool_categories ex_db) \<and>
   mset (load_tools ex_db (Some 0)) = mset (tools ex_db) \<and>
   load_tool_categories ex_db (Some 0) = [ex_cat0, ex_cat2, ex_cat1] \<and>
   load_tools ex_db (Some 0) = [ex_tool0, ex_tool2, ex_tool1]"
  using falsy_filter_returns_whole_table [of "Some 0" ex_db]
  by (simp add: ex_data_defs)

section \<open>Properties of the CSV import\<close>

lemmas import_defs =
  import_tool_data_def sqlite3_connect_def import_row_def row_get_def strip_def is_space_def
  select_stage_id_def insert_category_def insert_tools_def insert_tool_def commit_def
  rollback_def Let_def

subsection \<open>The committed content is untouched while the loop runs\<close>

lemma disk_insert_category [simp]: "disk (insert_category conn sid n d) = disk conn"
  by (simp add: insert_category_def Let_def)

lemma disk_insert_tool [simp]: "disk (insert_tool conn cid n d) = disk conn"
  by (simp add: insert_tool_def Let_def)

lemma disk_insert_tools [simp]: "disk (insert_tools conn cid cn pieces) = disk conn"
  unfolding insert_tools_def
  by (induction pieces arbitrary: conn) (simp_all add: Let_def)

lemma disk_import_row: "import_row conn row = Inr conn' \<Longrightarrow> disk conn' = disk conn"
  by (auto simp: import_row_def Let_def split: sum.splits if_splits option.splits)

lemma disk_import_rows: "import_rows conn rows = (conn', r) \<Longrightarrow> disk conn' = disk conn"
proof (induction rows arbitrary: conn)
  case Nil
  then show ?case by simp
next
  case (Cons row rows)
  show ?case
  proof (cases "import_row conn row")
    case (Inl e)
    with Cons.prems show ?thesis by simp
  next
    case (Inr c1)
    with Cons.prems have "import_rows c1 rows = (conn', r)" by simp
    then have "disk conn' = disk c1" by (rule Cons.IH)
    with Inr show ?thesis by (simp add: disk_import_row)
  qed
qed

subsection \<open>What one row inserts\<close>

lemma insert_tools_Nil [simp]: "insert_tools conn cid cn [] = conn"
  by (simp add: insert_tools_def)

lemma insert_tools_Cons:
  "insert_tools conn cid cn (p # ps) =
     insert_tools (if strip p \<noteq> [] then insert_tool conn cid (strip p) (''Example tool for '' @ cn)
                   else conn) cid cn ps"
  by (simp add: insert_tools_def Let_def)

lemma insert_tool_tables:
  "tools (txn (insert_tool conn cid n d)) =
     tools (txn conn) @ [\<lparr>t_id = next_rowid (map t_id (tools (txn conn))), t_category_id = cid,
                           t_name = n, t_description = d\<rparr>]"
  "tool_categories (txn (insert_tool conn cid n d)) = tool_categories (txn conn)"
  by (simp_all add: insert_tool_def Let_def)

lemma insert_tools_tables:
  "\<exists>new. tools (txn (insert_tools conn cid cn ps)) = tools (txn conn) @ new \<and>
         map t_name new = filter (\<lambda>n. n \<noteq> []) (map strip ps) \<and>
         (\<forall>t \<in> set new. t_category_id t = cid) \<and>
         tool_categories (txn (insert_tools conn cid cn ps)) = tool_categories (txn conn)"
proof (induction ps arbitrary: conn)
  case Nil
  then show ?case by simp
next
  case (Cons p ps)
  let ?c = "if strip p \<noteq> [] then insert_tool conn cid (strip p) (''Example tool for '' @ cn)
            else conn"
  obtain new where new: "tools (txn (insert_tools ?c cid cn ps)) = tools (txn ?c) @ new"
      "map t_name new = filter (\<lambda>n. n \<noteq> []) (map strip ps)"
      "\<forall>t \<in> set new. t_category_id t = cid"
      "tool_categories (txn (insert_tools ?c cid cn ps)) = tool_categories (txn ?c)"
    using Cons.IH [of ?c] by blast
  show ?case
  proof (cases "strip p \<noteq> []")
    case True
    let ?t = "\<lparr>t_id = next_rowid (map t_id (tools (txn conn))), t_category_id = cid,
               t_name = strip p, t_description = ''Example tool for '' @ cn\<rparr>"
    from True new have "tools (txn (insert_tools conn cid cn (p # ps))) = tools (txn conn) @ (?t # new)"
      by (simp add: insert_tools_Cons insert_tool_tables)
    moreover from True new have "map t_name (?t # new) = filter (\<lambda>n. n \<noteq> []) (map strip (p # ps))"
      by simp
    moreover from new have "\<forall>t \<in> set (?t # new). t_category_id t = cid"
      by simp
    moreover from True new have "tool_categories (txn (insert_tools conn cid cn (p # ps))) = tool_categories (txn conn)"
      by (simp add: insert_tools_Cons insert_tool_tables)
    ultimately show ?thesis by blast
  next
    case False
    with new show ?thesis
      by (simp add: insert_tools_Cons)
  qed
qed

lemma import_row_skips:
  assumes "row_get row ''RESEARCH DATA LIFECYCLE STAGE'' = Str a"
    and "row_get row ''TOOL CATEGORY TYPE'' = Str b"
    and "row_get row ''DESCRIPTION (1 SENTENCE)'' = Str d"
    and "row_get row ''EXAMPLES'' = Str x"
    and "strip a = [] \<or> strip b = [] \<or> select_stage_id (txn conn) (strip a) = None"
  shows "import_row conn row = Inr conn"
  using assms by (auto simp: import_row_def)

lemma import_row_inserts:
  assumes "row_get row ''RESEARCH DATA LIFECYCLE STAGE'' = Str a"
    and "row_get row ''TOOL CATEGORY TYPE'' = Str b"
    and "row_get row ''DESCRIPTION (1 SENTENCE)'' = Str d"
    and "row_get row ''EXAMPLES'' = Str x"
    and "strip a \<noteq> []" and "strip b \<noteq> []"
    and "select_stage_id (txn conn) (strip a) = Some sid"
  shows "\<exists>conn' new. import_row conn row = Inr conn' \<and>
           tool_categories (txn conn') = tool_categories (txn conn) @
             [\<lparr>c_id = next_rowid (map c_id (tool_categories (txn conn))), c_stage_id = sid,
               c_name = strip b, c_description = strip d\<rparr>] \<and>
           tools (txn conn') = tools (txn conn) @ new \<and>
           map t_name new = filter (\<lambda>n. n \<noteq> []) (map strip (split_comma (strip x))) \<and>
           (\<forall>t \<in> set new. t_category_id t = last_insert_rowid conn)"
proof -
  let ?c1 = "insert_category conn sid (strip b) (strip d)"
  have row: "import_row conn row =
      Inr (insert_tools ?c1 (last_insert_rowid conn) (strip b) (split_comma (strip x)))"
    using assms by (simp add: import_row_def Let_def)
  have c1: "tools (txn ?c1) = tools (txn conn)"
    "tool_categories (txn ?c1) = tool_categories (txn conn) @
             [\<lparr>c_id = next_rowid (map c_id (tool_categories (txn conn))), c_stage_id = sid,
               c_name = strip b, c_description = strip d\<rparr>]"
    by (simp_all add: insert_category_def Let_def)
  from insert_tools_tables [of ?c1 "last_insert_rowid conn" "strip b" "split_comma (strip x)"] row c1
  show ?thesis by auto
qed


text \<open>
  C1: the import of the spec's example row into a store that has the stage
  \<^verbatim>\<open>Collect\<close> (id 4). One category (id 1) and the two tools are inserted, and the tools
  carry \<^verbatim>\<open>category_id = 0\<close>, the \<^verbatim>\<open>lastrowid\<close> of the SELECT's cursor, instead of the
  id 1 of the category just inserted.
\<close>

theorem import_example_row_links_tools_to_stale_rowid:
  "import_tool_data ex_db_collect (Inr [ex_row_collect]) =
     (ex_db_collect\<lparr>tool_categories :=
        [\<lparr>c_id = 1, c_stage_id = 4, c_name = ''Acquisition'', c_description = ''Gets data''\<rparr>],
      tools :=
        [\<lparr>t_id = 1, t_category_id = 0, t_name = ''ToolA'',
          t_description = ''Example tool for Acquisition''\<rparr>,
         \<lparr>t_id = 2, t_category_id = 0, t_name = ''ToolB'',
          t_description = ''Example tool for Acquisition''\<rparr>]\<rparr>, None)"
  by (simp add: import_defs ex_row_collect_def ex_db_collect_def)

text \<open>
  C2, as stated, fails: the second row raises after the first has inserted a category
  and two tools; the exception is reported, and the database file holds none of them.
\<close>

theorem failing_import_keeps_nothing_counterexample:
  "snd (import_rows (sqlite3_connect ex_db_collect) [ex_row_collect, ex_row_no_stage])
     = Some AttributeError \<and>
   map c_name (tool_categories (txn (fst
     (import_rows (sqlite3_connect ex_db_collect) [ex_row_collect, ex_row_no_stage]))))
     = [''Acquisition''] \<and>
   map t_name (tools (txn (fst
     (import_rows (sqlite3_connect ex_db_collect) [ex_row_collect, ex_row_no_stage]))))
     = [''ToolA'', ''ToolB''] \<and>
   import_tool_data ex_db_collect (Inr [ex_row_collect, ex_row_no_stage])
     = (ex_db_collect, Some AttributeError) \<and>
   tool_categories ex_db_collect = [] \<and> tools ex_db_collect = []"
  by (simp add: import_defs ex_row_collect_def ex_row_no_stage_def ex_db_collect_def)

text \<open>
  C2 (amended): \<^verbatim>\<open>import_tool_data\<close> always returns (every exception is caught), and
  when an exception was raised and reported, the database is exactly what it was before
  the import: the rows inserted before the failure are rolled back.
\<close>

theorem failing_import_rolls_back:
  assumes failed: "snd (import_tool_data db csv) = Some e"
  shows "fst (import_tool_data db csv) = db"
proof (cases csv)
  case (Inl e')
  then show ?thesis by (simp add: import_tool_data_def)
next
  case (Inr df)
  obtain conn r where res: "import_rows (sqlite3_connect db) df = (conn, r)"
    by (cases "import_rows (sqlite3_connect db) df")
  then have "disk conn = db"
    using disk_import_rows [OF res] by (simp add: sqlite3_connect_def)
  then show ?thesis
    using Inr res failed by (cases r) (simp_all add: import_tool_data_def rollback_def commit_def)
qed

theorem failing_import_rolls_back_witness:
  "snd (import_tool_data ex_db_collect (Inr [ex_row_collect, ex_row_collect, ex_row_no_stage]))
     = Some AttributeError \<and>
   fst (import_tool_data ex_db_collect (Inr [ex_row_collect, ex_row_collect, ex_row_no_stage]))
     = ex_db_collect"
  using failing_import_rolls_back
    [of ex_db_collect "Inr [ex_row_collect, ex_row_collect, ex_row_no_stage]" AttributeError]
  by (simp add: import_defs ex_row_collect_def ex_row_no_stage_def ex_db_collect_def)

text \<open>
  C9: a row whose stage field is empty in the file is not skipped. The cell is
  \<^verbatim>\<open>NaN\<close>, \<^verbatim>\<open>.strip()\<close> raises \<^verbatim>\<open>AttributeError\<close> on it, the loop ends there, and the
  well-formed row after it is never imported.
\<close>

theorem empty_stage_field_aborts_import:
  "import_row (sqlite3_connect ex_db_collect) ex_row_no_stage = Inl AttributeError \<and>
   import_tool_data ex_db_collect (Inr [ex_row_no_stage, ex_row_collect])
     = (ex_db_collect, Some AttributeError)"
  by (simp add: import_defs ex_row_collect_def ex_row_no_stage_def ex_db_collect_def)

section \<open>Properties of the search\<close>

subsection \<open>A pattern without wildcards is a substring test\<close>

lemma pattern_compare_percent_only [simp]: "pattern_compare ''%'' s"
  by (induction s) simp_all






subsection \<open>NUL-terminated strings\<close>








section \<open>Properties of the visualization\<close>

lemmas vis_defs =
  create_lifecycle_visualization_def stage_positions_def stage_angles_def add_stage_nodes_def
  stage_node_def py_index_def ex_stages_def Let_def

lemma stage_positions_nth:
  "i < n \<Longrightarrow> fst (stage_positions a r n) ! i = (if even i then - 0.8 * r else 0.8 * r)"
  "i < n \<Longrightarrow> snd (stage_positions a r n) ! i = (if even i then r else - r)"
  by (simp_all add: stage_positions_def even_iff_mod_2_eq_zero odd_iff_mod_2_eq_one)

lemma length_add_stage_nodes [simp]: "length (add_stage_nodes xp yp sel sl) = length sl"
  by (simp add: add_stage_nodes_def)

lemma add_stage_nodes_nth:
  "i < length sl \<Longrightarrow>
     trace_x (add_stage_nodes xp yp sel sl ! i) = [xp ! i] \<and>
     trace_y (add_stage_nodes xp yp sel sl ! i) = [yp ! i]"
  by (simp add: add_stage_nodes_def stage_node_def nth_enumerate_eq Let_def)

lemma add_connections_step_nonneg:
  assumes "1 \<le> from_stage_id conn" and "1 \<le> to_stage_id conn"
    and "length xp = n" and "length yp = n"
  shows "add_connections xp yp n (conn # conns) fig =
     add_connections xp yp n conns
       (if from_stage_id conn \<le> int n \<and> to_stage_id conn \<le> int n
        then fig @ [Connection_line
                      [xp ! nat (from_stage_id conn - 1), xp ! nat (to_stage_id conn - 1)]
                      [yp ! nat (from_stage_id conn - 1), yp ! nat (to_stage_id conn - 1)]
                      \<lparr>ls_color = ''rgba(120, 120, 120, 0.6)'', ls_width = 1,
                       ls_dash = (if connection_type conn = ''alternative''
                                  then Some ''dash'' else None)\<rparr>]
        else fig)"
  using assms by (auto simp: py_index_def Let_def)

text \<open>
  C4: a connection whose \<^verbatim>\<open>from_stage_id\<close> is 0 has the index \<open>-1\<close>, which is not an
  index of the two stages, and yet a line is drawn: the guard of line 197 has no lower
  bound, and \<^verbatim>\<open>x_positions[-1]\<close> reads the last stage. With \<^verbatim>\<open>from_stage_id = -5\<close>
  the guard passes as well and the index raises \<^verbatim>\<open>IndexError\<close>.
\<close>

theorem negative_index_connection_is_drawn:
  "create_lifecycle_visualization ex_stages
     [\<lparr>from_stage_id = 0, to_stage_id = 1, connection_type = ''normal''\<rparr>] None =
   Inr [Connection_line [0.8, - 0.8] [- 1, 1]
          \<lparr>ls_color = ''rgba(120, 120, 120, 0.6)'', ls_width = 1, ls_dash = None\<rparr>,
        Stage_node [- 0.8] [1] \<lparr>m_size = 25, m_color = ''rgba(122, 193, 66, 0.8)''\<rparr>
          ''Conceptualise'' 1 ''Ideas'',
        Stage_node [0.8] [- 1] \<lparr>m_size = 25, m_color = ''rgba(122, 193, 66, 0.8)''\<rparr>
          ''Plan'' 2 ''Planning''] \<and>
   create_lifecycle_visualization ex_stages
     [\<lparr>from_stage_id = - 5, to_stage_id = 1, connection_type = ''normal''\<rparr>] None =
   Inl IndexError"
  by (simp add: vis_defs upt_conv_Cons enumerate_eq_zip)

text \<open>
  C5: for \<open>N\<close> stages and \<open>i < N\<close>, the position of stage \<open>i\<close> is \<open>x = -0.8\<close>,
  \<open>y = 1\<close> for even \<open>i\<close> and \<open>x = 0.8\<close>, \<open>y = -1\<close> for odd \<open>i\<close> (the radius is 1);
  whenever the figure is built, its last \<open>N\<close> traces are the stage nodes, and node
  \<open>i\<close> is drawn at that position. The positions do not depend on the list of angles.
\<close>

theorem stage_positions_alternate:
  assumes i: "i < length stage_list"
  shows "fst (stage_positions (stage_angles (length stage_list)) 1 (length stage_list)) ! i
           = (if even i then - 0.8 else 0.8) \<and>
         snd (stage_positions (stage_angles (length stage_list)) 1 (length stage_list)) ! i
           = (if even i then 1 else - 1) \<and>
         (\<forall>fig. create_lifecycle_visualization stage_list connection_list sel = Inr fig \<longrightarrow>
            (\<exists>lines nodes. fig = lines @ nodes \<and> length nodes = length stage_list \<and>
               trace_x (nodes ! i) = [if even i then - 0.8 else 0.8] \<and>
               trace_y (nodes ! i) = [if even i then 1 else - 1])) \<and>
         stage_positions angles radius n = stage_positions angles' radius n"
proof (intro conjI allI impI)
  let ?n = "length stage_list"
  let ?p = "stage_positions (stage_angles ?n) 1 ?n"
  show x: "fst ?p ! i = (if even i then - 0.8 else 0.8)"
    using stage_positions_nth(1) [OF i, of "stage_angles ?n" 1] by simp
  show y: "snd ?p ! i = (if even i then 1 else - 1)"
    using stage_positions_nth(2) [OF i, of "stage_angles ?n" 1] by simp
  show "stage_positions angles radius n = stage_positions angles' radius n"
    by (simp add: stage_positions_def)
  fix fig
  assume "create_lifecycle_visualization stage_list connection_list sel = Inr fig"
  then obtain lines where
    "fig = lines @ add_stage_nodes (fst ?p) (snd ?p) sel stage_list"
    by (auto simp: create_lifecycle_visualization_def Let_def split: sum.splits prod.splits)
  moreover have "trace_x (add_stage_nodes (fst ?p) (snd ?p) sel stage_list ! i) =
      [if even i then - 0.8 else 0.8]"
    using add_stage_nodes_nth [OF i, of "fst ?p" "snd ?p" sel] x by simp
  moreover have "trace_y (add_stage_nodes (fst ?p) (snd ?p) sel stage_list ! i) =
      [if even i then 1 else - 1]"
    using add_stage_nodes_nth [OF i, of "fst ?p" "snd ?p" sel] y by simp
  ultimately show "\<exists>lines nodes. fig = lines @ nodes \<and> length nodes = length stage_list \<and>
            trace_x (nodes ! i) = [if even i then - 0.8 else 0.8] \<and>
            trace_y (nodes ! i) = [if even i then 1 else - 1]"
    using length_add_stage_nodes by blast
qed

theorem stage_positions_alternate_witness:
  "1 < length ex_stages \<and>
   create_lifecycle_visualization ex_stages
     [\<lparr>from_stage_id = 1, to_stage_id = 2, connection_type = ''normal''\<rparr>] None =
   Inr ([Connection_line [- 0.8, 0.8] [1, - 1]
          \<lparr>ls_color = ''rgba(120, 120, 120, 0.6)'', ls_width = 1, ls_dash = None\<rparr>] @
        [Stage_node [- 0.8] [1] \<lparr>m_size = 25, m_color = ''rgba(122, 193, 66, 0.8)''\<rparr>
          ''Conceptualise'' 1 ''Ideas'',
        Stage_node [0.8] [- 1] \<lparr>m_size = 25, m_color = ''rgba(122, 193, 66, 0.8)''\<rparr>
          ''Plan'' 2 ''Planning'']) \<and>
   fst (stage_positions (stage_angles (length ex_stages)) 1 (length ex_stages)) ! 1 = 0.8 \<and>
   snd (stage_positions (stage_angles (length ex_stages)) 1 (length ex_stages)) ! 1 = - 1 \<and>
   stage_positions (stage_angles 2) 1 2 = stage_positions [] 1 2"
  using stage_positions_alternate
    [of 1 ex_stages
      "[\<lparr>from_stage_id = 1, to_stage_id = 2, connection_type = ''normal''\<rparr>]" None
      "stage_angles 2" 1 2 "[]"]
  by (simp add: vis_defs upt_conv_Cons enumerate_eq_zip)


end
